theory Spec2Isabelle
  imports Complex_Main "HOL-Library.Word" "HOL-Library.Sublist"
begin

section \<open>Strings of the host language\<close>

text \<open>
  The program is TypeScript: a string is a sequence of UTF-16 code units. A code unit is a
  16-bit word, so that the white space that \<^verbatim>\<open>String.prototype.trim\<close> removes (which
  reaches beyond Latin-1) is the set the language standard lists.
\<close>

type_synonym jschar = "16 word"
type_synonym jsstring = "jschar list"

text \<open>An ASCII literal as code units; it is used to write the examples.\<close>

definition js :: "string \<Rightarrow> jsstring" where
  "js s = map (\<lambda>c. of_nat (of_char c)) s"

definition LF :: jschar where
  "LF = 0x000A"

definition CR :: jschar where
  "CR = 0x000D"

text \<open>
  ECMAScript's \<^verbatim>\<open>WhiteSpace\<close> (TAB, VT, FF, ZWNBSP and the space separators) and
  \<^verbatim>\<open>LineTerminator\<close> (LF, CR, LS, PS); \<^verbatim>\<open>trim\<close> strips both kinds from both ends.
\<close>

definition WhiteSpace :: "jschar \<Rightarrow> bool" where
  "WhiteSpace c \<longleftrightarrow>
     c \<in> {0x0009, 0x000B, 0x000C, 0x0020, 0x00A0, 0x1680, 0x202F, 0x205F, 0x3000, 0xFEFF}
     \<or> (0x2000 \<le> c \<and> c \<le> 0x200A)"

definition LineTerminator :: "jschar \<Rightarrow> bool" where
  "LineTerminator c \<longleftrightarrow> c \<in> {0x000A, 0x000D, 0x2028, 0x2029}"

definition StrWhiteSpaceChar :: "jschar \<Rightarrow> bool" where
  "StrWhiteSpaceChar c \<longleftrightarrow> WhiteSpace c \<or> LineTerminator c"

definition trim :: "jsstring \<Rightarrow> jsstring" where
  "trim s = rev (dropWhile StrWhiteSpaceChar (rev (dropWhile StrWhiteSpaceChar s)))"

text \<open>
  \<^verbatim>\<open>s.split(sep)\<close> for a separator of one code unit: the pieces between the separators,
  the empty string giving the one empty piece.
\<close>

fun split :: "jschar \<Rightarrow> jsstring \<Rightarrow> jsstring list" where
  "split sep [] = [[]]"
| "split sep (c # cs) =
     (if c = sep then [] # split sep cs
      else (case split sep cs of [] \<Rightarrow> [[c]] | l # ls \<Rightarrow> (c # l) # ls))"


section \<open>The component: its state and its two handlers\<close>

text \<open>
  \<^verbatim>\<open>const [parsedMessages, setParsedMessages] = useState<string[]>([])\<close> is the whole state
  of the component. The setter replaces the stored array.
\<close>

record app_state =
  parsedMessages :: "jsstring list"

definition initial_state :: app_state where
  "initial_state = \<lparr>parsedMessages = []\<rparr>"

definition setParsedMessages :: "jsstring list \<Rightarrow> app_state \<Rightarrow> app_state" where
  "setParsedMessages v st = st\<lparr>parsedMessages := v\<rparr>"

text \<open>
  \<^verbatim>\<open>const lines = text.split('\n').filter(line => line.trim() !== '')\<close>, then
  \<^verbatim>\<open>setParsedMessages(lines)\<close>.
\<close>

definition parseLog :: "jsstring \<Rightarrow> app_state \<Rightarrow> app_state" where
  "parseLog text st =
     (let lines = filter (\<lambda>line. trim line \<noteq> []) (split LF text)
      in setParsedMessages lines st)"

text \<open>
  An uploaded file: its name and the text that \<^verbatim>\<open>readAsText\<close> hands to \<^verbatim>\<open>onload\<close>.
  The handler reads \<^verbatim>\<open>event.target.files?.[0]\<close>: the first file of the selection when there
  is one (a missing file list behaves as the empty one), and nothing else. The rendered
  \<^verbatim>\<open><input type="file">\<close> has no \<^verbatim>\<open>multiple\<close> attribute, so a selection holds at most one
  file. The read is modelled as delivering its text at once.
\<close>

record File =
  name :: jsstring
  content :: jsstring

definition handleFileUpload :: "File list \<Rightarrow> app_state \<Rightarrow> app_state" where
  "handleFileUpload files st =
     (case files of [] \<Rightarrow> st | f # _ \<Rightarrow> parseLog (content f) st)"


section \<open>An input line\<close>

text \<open>The line of the specification's Example 1.\<close>

definition example1_line :: jsstring where
  "example1_line =
     js ''[10-11-25 21:29:30.123] Rota Lyashko (Rota) @ 5776,11056,0: [en] /say -, no, - no, - I believe you.''"


section \<open>Records, filters and the chat export, from the specification\<close>

text \<open>
  The source has no record type, no filter and no exporter: it keeps and shows the stored
  lines. The definitions of this section are written from the specification's sections 3,
  4.3 and 4.4.
\<close>

text \<open>
  Modelled from the spec: the ChatLogRecord of section 3, which the source does not
  declare. The timestamp is an absolute instant, held as milliseconds since
  1970-01-01T00:00:00Z; the optional fields are options; \<open>floor_level\<close> is the field the
  specification calls floor.
\<close>

record ChatLogRecord =
  timestamp :: int
  user :: jsstring
  nickname :: "jsstring option"
  latitude :: "real option"
  longitude :: "real option"
  floor_level :: "int option"
  language :: "jsstring option"
  messageType :: "jsstring option"
  message :: jsstring

text \<open>
  Modelled from the spec: the calendar behind an instant given as a UTC date and time of
  day, which the source does not have. A year is a leap year by the Gregorian rule.
\<close>

definition is_leap_year :: "int \<Rightarrow> bool" where
  "is_leap_year y \<longleftrightarrow> y mod 4 = 0 \<and> (y mod 100 \<noteq> 0 \<or> y mod 400 = 0)"

text \<open>
  Modelled from the spec: the days from 1970-01-01 to the first day of the year \<open>y\<close>,
  365 for every year and one more for every leap year in between.
\<close>

definition days_before_year :: "int \<Rightarrow> int" where
  "days_before_year y =
     365 * (y - 1970) + ((y - 1) div 4 - 1969 div 4) - ((y - 1) div 100 - 1969 div 100)
       + ((y - 1) div 400 - 1969 div 400)"

text \<open>
  Modelled from the spec: the days of the year \<open>y\<close> before the first day of its month \<open>m\<close>
  (1 to 12).
\<close>

definition days_before_month :: "int \<Rightarrow> nat \<Rightarrow> int" where
  "days_before_month y m =
     [0, 31, 59, 90, 120, 151, 181, 212, 243, 273, 304, 334] ! (m - 1)
       + (if is_leap_year y \<and> 2 < m then 1 else 0)"

text \<open>
  Modelled from the spec: the instant of a UTC date (year, month, day) and time of day
  (hour, minute, second, millisecond), as milliseconds since 1970-01-01T00:00:00Z.
\<close>

definition utc_instant :: "int \<Rightarrow> nat \<Rightarrow> int \<Rightarrow> int \<Rightarrow> int \<Rightarrow> int \<Rightarrow> int \<Rightarrow> int" where
  "utc_instant y m d h mi s ms =
     ((((days_before_year y + days_before_month y m + (d - 1)) * 24 + h) * 60 + mi) * 60 + s)
       * 1000 + ms"

text \<open>
  Modelled from the spec: the record that Example 1 of section 8 describes, field by
  field, with the timestamp 2025-11-10T21:29:30.123Z.
\<close>

definition example1_record :: ChatLogRecord where
  "example1_record =
     \<lparr>timestamp = utc_instant 2025 11 10 21 29 30 123,
      user = js ''Rota Lyashko'',
      nickname = Some (js ''Rota''),
      latitude = Some 5776,
      longitude = Some 11056,
      floor_level = Some 0,
      language = Some (js ''en''),
      messageType = Some (js ''/say''),
      message = js ''-, no, - no, - I believe you.''\<rparr>"

subsection \<open>FilterSpecification and FilterEngine\<close>

text \<open>
  Modelled from the spec: the radius facet of the FilterSpecification (section 3): centre
  latitude, centre longitude, maximal distance and an optional floor constraint.
\<close>

record RadiusFacet =
  centerLat :: real
  centerLng :: real
  maxDistance :: real
  floorConstraint :: "int option"

text \<open>
  Modelled from the spec: the dateRange facet (section 3): start and end instants, either
  bound optional.
\<close>

record DateRange =
  rangeStart :: "int option"
  rangeEnd :: "int option"

text \<open>
  Modelled from the spec: the FilterSpecification of section 3, which the source does not
  declare, every facet optional: \<open>users\<close>, \<open>languages\<close> and \<open>messageTypes\<close> are sets,
  \<open>searchText\<close> is a string.
\<close>

record FilterSpecification =
  users :: "jsstring set option"
  dateRange :: "DateRange option"
  radius :: "RadiusFacet option"
  languages :: "jsstring set option"
  messageTypes :: "jsstring set option"
  searchText :: "jsstring option"

text \<open>
  Modelled from the spec: the set facets of section 4.3. An absent or empty set is no
  constraint; against a non-empty set an absent field never matches.
\<close>

definition in_set_facet :: "jsstring set option \<Rightarrow> jsstring option \<Rightarrow> bool" where
  "in_set_facet facet field =
     (case facet of
        None \<Rightarrow> True
      | Some S \<Rightarrow> S = {} \<or> (case field of None \<Rightarrow> False | Some v \<Rightarrow> v \<in> S))"

text \<open>
  Modelled from the spec: the dateRange facet of section 4.3, inclusive at both ends, an
  absent bound being no constraint on its side.
\<close>

definition in_dateRange :: "DateRange option \<Rightarrow> ChatLogRecord \<Rightarrow> bool" where
  "in_dateRange facet r =
     (case facet of
        None \<Rightarrow> True
      | Some d \<Rightarrow>
          (case rangeStart d of None \<Rightarrow> True | Some s \<Rightarrow> s \<le> timestamp r) \<and>
          (case rangeEnd d of None \<Rightarrow> True | Some e \<Rightarrow> timestamp r \<le> e))"

text \<open>
  Modelled from the spec: the Euclidean distance of section 4.3,
  \<^verbatim>\<open>sqrt((lat-centerLat)^2 + (lng-centerLng)^2)\<close>, over the real numbers.
\<close>

definition distance :: "real \<Rightarrow> real \<Rightarrow> real \<Rightarrow> real \<Rightarrow> real" where
  "distance lat lng cLat cLng = sqrt ((lat - cLat)\<^sup>2 + (lng - cLng)\<^sup>2)"

text \<open>
  Modelled from the spec: the radius facet of section 4.3. A record passes only if it has
  coordinates, its distance to the centre is at most the maximal distance, and its floor
  is the constrained one when a floor constraint is given.
\<close>

definition in_radius :: "RadiusFacet option \<Rightarrow> ChatLogRecord \<Rightarrow> bool" where
  "in_radius facet r =
     (case facet of
        None \<Rightarrow> True
      | Some c \<Rightarrow>
          (case (latitude r, longitude r) of
             (Some lat, Some lng) \<Rightarrow>
               distance lat lng (centerLat c) (centerLng c) \<le> maxDistance c \<and>
               (case floorConstraint c of None \<Rightarrow> True | Some fl \<Rightarrow> floor_level r = Some fl)
           | _ \<Rightarrow> False))"

text \<open>
  Modelled from the spec: the case folding behind the case-insensitive match of section
  4.3. The specification names no case mapping; the letters A to Z are folded to a to z.
\<close>

definition lower_case :: "jsstring \<Rightarrow> jsstring" where
  "lower_case s = map (\<lambda>c. if 0x41 \<le> c \<and> c \<le> 0x5A then c + 0x20 else c) s"

text \<open>
  Modelled from the spec: the searchText facet of section 4.3, a case-insensitive
  substring match against the message only, the empty search string being no constraint.
\<close>

definition in_searchText :: "jsstring option \<Rightarrow> ChatLogRecord \<Rightarrow> bool" where
  "in_searchText facet r =
     (case facet of
        None \<Rightarrow> True
      | Some q \<Rightarrow> q = [] \<or> sublist (lower_case q) (lower_case (message r)))"

text \<open>
  Modelled from the spec: a record matches a specification when it passes every facet
  (section 4.3: all active facets combine with AND).
\<close>

definition matches :: "FilterSpecification \<Rightarrow> ChatLogRecord \<Rightarrow> bool" where
  "matches spec r \<longleftrightarrow>
     in_set_facet (users spec) (Some (user r)) \<and>
     in_dateRange (dateRange spec) r \<and>
     in_radius (radius spec) r \<and>
     in_set_facet (languages spec) (language r) \<and>
     in_set_facet (messageTypes spec) (messageType r) \<and>
     in_searchText (searchText spec) r"

text \<open>
  Modelled from the spec: the FilterEngine's \<open>evaluate\<close> of section 4.3, a stable filter
  that keeps the matching records in their order; the source has no FilterEngine. The
  validation of a specification (section 7) is a check of the specification before it is
  applied and is not part of \<open>evaluate\<close>.
\<close>

definition evaluate :: "ChatLogRecord list \<Rightarrow> FilterSpecification \<Rightarrow> ChatLogRecord list" where
  "evaluate records spec = filter (matches spec) records"

text \<open>
  Modelled from the spec: an empty FilterSpecification, every facet absent or empty
  (a set facet absent or the empty set, the date range absent or without bounds, no
  radius facet, the search text absent or the empty string).
\<close>

definition emptySpec :: "FilterSpecification \<Rightarrow> bool" where
  "emptySpec spec \<longleftrightarrow>
     (users spec = None \<or> users spec = Some {}) \<and>
     (dateRange spec = None \<or> dateRange spec = Some \<lparr>rangeStart = None, rangeEnd = None\<rparr>) \<and>
     radius spec = None \<and>
     (languages spec = None \<or> languages spec = Some {}) \<and>
     (messageTypes spec = None \<or> messageTypes spec = Some {}) \<and>
     (searchText spec = None \<or> searchText spec = Some [])"

subsection \<open>The chat-markdown serializer\<close>

text \<open>
  Modelled from the spec: a natural number as text, in decimal; the exporter's template
  needs numbers as text, and the specification gives no number format.
\<close>

fun digits :: "nat \<Rightarrow> jsstring" where
  "digits n = (if n < 10 then [of_nat (48 + n)] else digits (n div 10) @ [of_nat (48 + n mod 10)])"

text \<open>Modelled from the spec: an integer as text, in decimal, with a minus sign when negative.\<close>

definition show_int :: "int \<Rightarrow> jsstring" where
  "show_int i = (if i < 0 then 0x2D # digits (nat (- i)) else digits (nat i))"

text \<open>
  Modelled from the spec: the first \<open>n\<close> decimal places of a fraction between 0 and 1,
  stopping when nothing is left.
\<close>

fun fraction_digits :: "nat \<Rightarrow> real \<Rightarrow> jsstring" where
  "fraction_digits 0 x = []"
| "fraction_digits (Suc n) x =
     (if x = 0 then []
      else (let d = \<lfloor>x * 10\<rfloor> in of_nat (48 + nat d) # fraction_digits n (x * 10 - of_int d)))"

text \<open>
  Modelled from the spec: a coordinate as text. A whole number is printed as the integer
  it is (as in the specification's examples); a number that is not whole gets a decimal
  point and at most 17 decimal places.
\<close>

definition show_number :: "real \<Rightarrow> jsstring" where
  "show_number x =
     (if x < 0 then [0x2D] else []) @ digits (nat \<lfloor>\<bar>x\<bar>\<rfloor>) @
     (if frac \<bar>x\<bar> = 0 then [] else 0x2E # fraction_digits 17 (frac \<bar>x\<bar>))"

text \<open>
  Modelled from the spec: the segments of a line, and the lines of a block, are joined by
  a separator that stands between two neighbours only.
\<close>

fun join :: "jsstring \<Rightarrow> jsstring list \<Rightarrow> jsstring" where
  "join sep [] = []"
| "join sep [x] = x"
| "join sep (x # y # ys) = x @ sep @ join sep (y # ys)"

text \<open>
  Modelled from the spec: the epoch-seconds value of section 4.4, the record's timestamp
  truncated to whole seconds: the milliseconds within the second are dropped.
\<close>

definition epoch_seconds :: "ChatLogRecord \<Rightarrow> int" where
  "epoch_seconds r = timestamp r div 1000"

text \<open>
  Modelled from the spec: the fixed token template of section 4.4 that embeds the
  epoch-seconds value, \<^verbatim>\<open><t:SECONDS:f>\<close>.
\<close>

definition timestamp_token :: "ChatLogRecord \<Rightarrow> jsstring" where
  "timestamp_token r = js ''<t:'' @ show_int (epoch_seconds r) @ js '':f>''"

text \<open>
  Modelled from the spec: the coordinate segment of section 4.4, with its backticks; it is
  omitted when the coordinates are absent (by the data model latitude, longitude and floor
  are present together).
\<close>

definition coordinate_segment :: "ChatLogRecord \<Rightarrow> jsstring option" where
  "coordinate_segment r =
     (case (latitude r, longitude r, floor_level r) of
        (Some lat, Some lng, Some fl) \<Rightarrow>
          Some (js ''`'' @ show_number lat @ js '','' @ show_number lng @ js '','' @
                show_int fl @ js ''`'')
      | _ \<Rightarrow> None)"

text \<open>
  Modelled from the spec: the two-line block of section 4.4 for one record; the source has
  no exporter. The first line is the user, the timestamp token and, after \<^verbatim>\<open> - \<close>, the
  coordinate segment when there is one; the second is the present ones of language (in
  brackets), message type and message, one space between them, inside asterisks.
\<close>

definition chat_markdown_block :: "ChatLogRecord \<Rightarrow> jsstring list" where
  "chat_markdown_block r =
     [js ''> -# '' @ join (js '' '') [user r, timestamp_token r] @
        (case coordinate_segment r of None \<Rightarrow> [] | Some seg \<Rightarrow> js '' - '' @ seg),
      js ''> *'' @
        join (js '' '')
          ((case language r of None \<Rightarrow> [] | Some l \<Rightarrow> [js ''['' @ l @ js '']'']) @
           (case messageType r of None \<Rightarrow> [] | Some t \<Rightarrow> [t]) @
           [message r]) @
        js ''*'']"

text \<open>
  Modelled from the spec: the bulk invocation of section 4.4, the blocks of the records in
  subset order, joined by newlines.
\<close>

definition chat_markdown :: "ChatLogRecord list \<Rightarrow> jsstring" where
  "chat_markdown records = join [LF] (concat (map chat_markdown_block records))"


section \<open>Lemmas on splitting and trimming\<close>

lemmas parseLog_eval =
  parseLog_def setParsedMessages_def handleFileUpload_def initial_state_def trim_def
  StrWhiteSpaceChar_def WhiteSpace_def LineTerminator_def LF_def CR_def js_def

lemma split_not_Nil: "split sep s \<noteq> []"
  by (induction s) (auto split: list.splits)

lemma split_append: "split sep (a @ sep # b) = split sep a @ split sep b"
proof (induction a)
  case Nil
  show ?case by simp
next
  case (Cons c a)
  obtain l ls where "split sep a = l # ls"
    using split_not_Nil [of sep a] by (cases "split sep a") auto
  with Cons show ?case by simp
qed

lemma split_no_sep: "sep \<notin> set l \<Longrightarrow> split sep l = [l]"
  by (induction l) auto

lemma split_pieces: "l \<in> set (split sep s) \<Longrightarrow> sep \<notin> set l"
proof (induction s arbitrary: l)
  case Nil
  then show ?case by simp
next
  case (Cons c s)
  obtain l' ls where eq: "split sep s = l' # ls"
    using split_not_Nil [of sep s] by (cases "split sep s") auto
  show ?case
  proof (cases "c = sep")
    case True
    with Cons show ?thesis by auto
  next
    case False
    with Cons.prems eq have "l = c # l' \<or> l \<in> set ls" by simp
    then show ?thesis
    proof
      assume "l = c # l'"
      moreover have "sep \<notin> set l'" using Cons.IH [of l'] eq by simp
      ultimately show ?thesis using False by auto
    next
      assume "l \<in> set ls"
      then show ?thesis using Cons.IH [of l] eq by simp
    qed
  qed
qed

lemma split_join: "concat (map (\<lambda>l. l @ [sep]) (split sep s)) = s @ [sep]"
proof (induction s)
  case Nil
  show ?case by simp
next
  case (Cons c s)
  obtain l ls where "split sep s = l # ls"
    using split_not_Nil [of sep s] by (cases "split sep s") auto
  with Cons show ?case by auto
qed

lemma split_terminated:
  "\<forall>l \<in> set ls. sep \<notin> set l \<Longrightarrow> c \<noteq> sep \<Longrightarrow>
   split sep (concat (map (\<lambda>l. l @ [c, sep]) ls)) = map (\<lambda>l. l @ [c]) ls @ [[]]"
proof (induction ls)
  case Nil
  show ?case by simp
next
  case (Cons l ls)
  have "split sep (concat (map (\<lambda>l. l @ [c, sep]) (l # ls)))
        = split sep ((l @ [c]) @ sep # concat (map (\<lambda>l. l @ [c, sep]) ls))" by simp
  also have "\<dots> = split sep (l @ [c]) @ split sep (concat (map (\<lambda>l. l @ [c, sep]) ls))"
    by (rule split_append)
  also have "split sep (l @ [c]) = [l @ [c]]"
    using Cons.prems by (intro split_no_sep) auto
  finally show ?case using Cons by simp
qed

lemma trim_Nil_iff: "trim s = [] \<longleftrightarrow> (\<forall>c \<in> set s. StrWhiteSpaceChar c)"
proof -
  have "trim s = [] \<longleftrightarrow> dropWhile StrWhiteSpaceChar (rev (dropWhile StrWhiteSpaceChar s)) = []"
    by (simp add: trim_def)
  also have "\<dots> \<longleftrightarrow> (\<forall>c \<in> set (dropWhile StrWhiteSpaceChar s). StrWhiteSpaceChar c)"
    by (simp add: dropWhile_eq_Nil_conv)
  also have "\<dots> \<longleftrightarrow> (\<forall>c \<in> set s. StrWhiteSpaceChar c)"
  proof
    assume a: "\<forall>c \<in> set (dropWhile StrWhiteSpaceChar s). StrWhiteSpaceChar c"
    have "dropWhile StrWhiteSpaceChar s = []"
    proof (rule ccontr)
      assume "dropWhile StrWhiteSpaceChar s \<noteq> []"
      then have "\<not> StrWhiteSpaceChar (hd (dropWhile StrWhiteSpaceChar s))"
        and "hd (dropWhile StrWhiteSpaceChar s) \<in> set (dropWhile StrWhiteSpaceChar s)"
        by (simp_all add: hd_dropWhile)
      with a show False by blast
    qed
    then show "\<forall>c \<in> set s. StrWhiteSpaceChar c" by (simp add: dropWhile_eq_Nil_conv)
  next
    assume "\<forall>c \<in> set s. StrWhiteSpaceChar c"
    then show "\<forall>c \<in> set (dropWhile StrWhiteSpaceChar s). StrWhiteSpaceChar c"
      using set_dropWhileD by fastforce
  qed
  finally show ?thesis .
qed



lemma parsedMessages_parseLog:
  "parsedMessages (parseLog text st) = filter (\<lambda>line. trim line \<noteq> []) (split LF text)"
  by (simp add: parseLog_def setParsedMessages_def)


section \<open>Lemmas on the filter and the export\<close>

lemmas filter_eval =
  evaluate_def matches_def in_set_facet_def in_dateRange_def in_radius_def in_searchText_def
  distance_def

lemmas export_eval =
  chat_markdown_block_def timestamp_token_def epoch_seconds_def coordinate_segment_def
  show_number_def show_int_def js_def utc_instant_def days_before_month_def
  days_before_year_def is_leap_year_def

lemma matches_emptySpec: "emptySpec spec \<Longrightarrow> matches spec r"
  by (auto simp: emptySpec_def matches_def in_set_facet_def in_dateRange_def in_radius_def
      in_searchText_def)

lemma sqrt_le_iff: "0 \<le> x \<Longrightarrow> sqrt x \<le> r \<longleftrightarrow> 0 \<le> r \<and> x \<le> r\<^sup>2"
proof
  assume x: "0 \<le> x" and le: "sqrt x \<le> r"
  have r: "0 \<le> r" using le real_sqrt_ge_zero [OF x] by linarith
  have "(sqrt x)\<^sup>2 \<le> r\<^sup>2"
    using le real_sqrt_ge_zero [OF x] by (intro power_mono) auto
  with x r show "0 \<le> r \<and> x \<le> r\<^sup>2" by simp
next
  assume x: "0 \<le> x" and r: "0 \<le> r \<and> x \<le> r\<^sup>2"
  then have "sqrt x \<le> sqrt (r\<^sup>2)" by (simp only: real_sqrt_le_iff)
  also have "sqrt (r\<^sup>2) = r" using r by simp
  finally show "sqrt x \<le> r" .
qed

lemma matches_radius:
  "radius spec = Some c \<Longrightarrow>
   matches spec r \<longleftrightarrow>
     matches (spec\<lparr>radius := None\<rparr>) r \<and>
     (\<exists>lat lng. latitude r = Some lat \<and> longitude r = Some lng \<and>
        sqrt ((lat - centerLat c)\<^sup>2 + (lng - centerLng c)\<^sup>2) \<le> maxDistance c \<and>
        (floorConstraint c = None \<or> floor_level r = floorConstraint c))"
  by (auto simp: matches_def in_radius_def distance_def split: option.splits)

lemma example1_block:
  "chat_markdown_block example1_record =
     [js ''> -# Rota Lyashko <t:1762810170:f> - `5776,11056,0`'',
      js ''> *[en] /say -, no, - no, - I believe you.*'']"
  by (simp add: example1_record_def export_eval)


section \<open>What \<open>parseLog\<close> returns\<close>

text \<open>
  C10. \<open>parseLog\<close> is deterministic and total. It is a function of its text alone: two runs
  on the same string store element-for-element equal lists, whatever was stored before
  each run. It returns on every string: \<open>split\<close>, \<open>trim\<close> and the filter are total
  functions (structural recursion over the string), and no step of the source can throw
  on a string. The empty string yields the empty list.
\<close>

theorem parseLog_deterministic_total:
  "list_all2 (=) (parsedMessages (parseLog text st)) (parsedMessages (parseLog text st'))
   \<and> length (parsedMessages (parseLog text st)) \<le> length text + 1
   \<and> parsedMessages (parseLog [] st) = []"
proof -
  have len: "length (split LF text) \<le> length text + 1"
    by (induction "text") (auto split: list.splits)
  have "length (parsedMessages (parseLog text st)) \<le> length (split LF text)"
    by (simp add: parsedMessages_parseLog)
  with len have "length (parsedMessages (parseLog text st)) \<le> length text + 1"
    by simp
  moreover have "parsedMessages (parseLog [] st) = []"
    by (simp add: parsedMessages_parseLog trim_def)
  moreover have "list_all2 (=) (parsedMessages (parseLog text st)) (parsedMessages (parseLog text st'))"
    by (simp add: parsedMessages_parseLog list_all2_eq [symmetric])
  ultimately show ?thesis by simp
qed

text \<open>
  C9. \<open>parseLog\<close> splits its text at the line feed only and stores every line it keeps as
  it is. The pieces of the split hold no line feed and, with a line feed put back after
  each, give the text again. The stored lines are the pieces that hold a code unit which
  is not white space, themselves and not their trimmed forms: \<open>trim\<close> decides only whether
  a line is kept. For a text whose lines each end in CR LF, every stored line is a line of
  the text with its CR still at the end.
\<close>

theorem parseLog_keeps_lines_verbatim:
  "concat (map (\<lambda>l. l @ [LF]) (split LF text)) = text @ [LF]
   \<and> (\<forall>l \<in> set (split LF text). LF \<notin> set l)
   \<and> parsedMessages (parseLog text st) =
       filter (\<lambda>l. \<exists>c \<in> set l. \<not> StrWhiteSpaceChar c) (split LF text)
   \<and> ((\<forall>l \<in> set ls. LF \<notin> set l) \<longrightarrow>
        parsedMessages (parseLog (concat (map (\<lambda>l. l @ [CR, LF]) ls)) st) =
          map (\<lambda>l. l @ [CR]) (filter (\<lambda>l. trim l \<noteq> []) ls)
        \<and> (\<forall>m \<in> set (parsedMessages (parseLog (concat (map (\<lambda>l. l @ [CR, LF]) ls)) st)).
              m \<noteq> [] \<and> last m = CR))"
proof (intro conjI impI)
  show "concat (map (\<lambda>l. l @ [LF]) (split LF text)) = text @ [LF]"
    by (rule split_join)
  show "\<forall>l \<in> set (split LF text). LF \<notin> set l"
    using split_pieces by blast
  show "parsedMessages (parseLog text st) =
          filter (\<lambda>l. \<exists>c \<in> set l. \<not> StrWhiteSpaceChar c) (split LF text)"
    by (simp add: parsedMessages_parseLog trim_Nil_iff)
next
  assume ls: "\<forall>l \<in> set ls. LF \<notin> set l"
  have cr: "StrWhiteSpaceChar CR"
    by (simp add: StrWhiteSpaceChar_def LineTerminator_def CR_def)
  have blank: "trim (l @ [CR]) \<noteq> [] \<longleftrightarrow> trim l \<noteq> []" for l
    using cr by (auto simp: trim_Nil_iff)
  have "CR \<noteq> LF" by (simp add: CR_def LF_def)
  with ls have "split LF (concat (map (\<lambda>l. l @ [CR, LF]) ls)) = map (\<lambda>l. l @ [CR]) ls @ [[]]"
    by (rule split_terminated)
  moreover have "trim [] = []"
    by (simp add: trim_def)
  ultimately show stored: "parsedMessages (parseLog (concat (map (\<lambda>l. l @ [CR, LF]) ls)) st) =
          map (\<lambda>l. l @ [CR]) (filter (\<lambda>l. trim l \<noteq> []) ls)"
    by (simp add: parsedMessages_parseLog filter_map comp_def blank)
  show "\<forall>m \<in> set (parsedMessages (parseLog (concat (map (\<lambda>l. l @ [CR, LF]) ls)) st)).
          m \<noteq> [] \<and> last m = CR"
    unfolding stored by auto
qed

theorem parseLog_keeps_lines_verbatim_witness:
  "LF \<notin> set (js ''  hi '') \<and> LF \<notin> set (js ''yo'')
   \<and> parsedMessages (parseLog (js ''  hi '' @ [CR, LF] @ js ''yo'' @ [CR, LF]) initial_state) =
       [js ''  hi '' @ [CR], js ''yo'' @ [CR]]"
  using parseLog_keeps_lines_verbatim
    [of "js ''  hi '' @ [CR, LF] @ js ''yo'' @ [CR, LF]" initial_state "[js ''  hi '', js ''yo'']"]
  by (simp add: parseLog_eval)

text \<open>
  C3. The aggregation step of the source is \<open>parseLog\<close>. It drops every line that is empty
  after trimming: such a line contributes nothing to the stored result. Every other line
  is kept, and the kept lines are in their in-file order: the stored list is the list of
  lines with the blank ones removed, a subsequence of the lines of the text. (In the
  source the kept lines are themselves the stored messages.)
\<close>

theorem parseLog_discards_blank_lines:
  "parsedMessages (parseLog text st) = filter (\<lambda>l. trim l \<noteq> []) (split LF text)
   \<and> (\<forall>l \<in> set (split LF text). trim l = [] \<longrightarrow> l \<notin> set (parsedMessages (parseLog text st)))
   \<and> (\<forall>l \<in> set (split LF text). trim l \<noteq> [] \<longrightarrow> l \<in> set (parsedMessages (parseLog text st)))
   \<and> subseq (parsedMessages (parseLog text st)) (split LF text)"
  by (simp add: parsedMessages_parseLog)

theorem parseLog_discards_blank_lines_witness:
  "js ''  '' \<in> set (split LF (js ''a'' @ [LF] @ js ''  '' @ [LF, LF] @ js ''b''))
   \<and> trim (js ''  '') = []
   \<and> js ''  '' \<notin> set (parsedMessages
        (parseLog (js ''a'' @ [LF] @ js ''  '' @ [LF, LF] @ js ''b'') initial_state))
   \<and> js ''b'' \<in> set (split LF (js ''a'' @ [LF] @ js ''  '' @ [LF, LF] @ js ''b''))
   \<and> trim (js ''b'') \<noteq> []
   \<and> parsedMessages (parseLog (js ''a'' @ [LF] @ js ''  '' @ [LF, LF] @ js ''b'') initial_state)
       = [js ''a'', js ''b'']"
  using parseLog_discards_blank_lines
    [of "js ''a'' @ [LF] @ js ''  '' @ [LF, LF] @ js ''b''" initial_state]
  by (simp add: parseLog_eval)

text \<open>
  C2 (amended). For every input line (a string without a line feed, the empty and the
  white-space-only ones included) \<open>parseLog\<close> returns and is a function of the line: a line
  that is empty after trimming yields no entry, and every other line yields exactly one
  entry, the line itself. No record with fields and no failure with a reason is produced.
\<close>

theorem parseLog_single_line:
  "LF \<notin> set line \<Longrightarrow>
   parsedMessages (parseLog line st) = (if trim line = [] then [] else [line])"
  by (simp add: parsedMessages_parseLog split_no_sep)

theorem parseLog_single_line_witness:
  "LF \<notin> set (js ''[10-11-25 21:29:30.123] Rota Lyashko (Rota): hello'')
   \<and> parsedMessages (parseLog (js ''[10-11-25 21:29:30.123] Rota Lyashko (Rota): hello'')
        initial_state)
       = [js ''[10-11-25 21:29:30.123] Rota Lyashko (Rota): hello'']"
  using parseLog_single_line
    [of "js ''[10-11-25 21:29:30.123] Rota Lyashko (Rota): hello''" initial_state]
  by (simp add: parseLog_eval)

text \<open>
  C2 as stated fails. The white-space-only line yields nothing at all, neither a record
  nor a failure; the line of the specification's Example 3, which fits no grammar shape,
  is not classified as a failure but stored as a message like any other line.
\<close>

theorem parseLog_no_failure_classification:
  "parsedMessages (parseLog (js ''   '') initial_state) = []
   \<and> parsedMessages (parseLog (js ''garbage text with no structure'') initial_state) =
       [js ''garbage text with no structure'']"
  by (simp add: parseLog_eval)

text \<open>
  C1 (amended). For the line of Example 1, \<open>parseLog\<close> stores exactly one entry, the line
  itself, unchanged: user, nickname, coordinates, floor, language, message type, message
  and timestamp are not extracted.
\<close>

theorem parseLog_example1_verbatim:
  "parsedMessages (parseLog example1_line st) = [example1_line]"
  by (simp add: example1_line_def parseLog_eval)

text \<open>
  C1 as stated fails. Run from the initial state on the line of Example 1, the stored
  result is the one raw line; it is the text of no field of the record that the claim
  describes (not its message, not its user).
\<close>

theorem parseLog_example1_no_record:
  "parsedMessages (parseLog example1_line initial_state) = [example1_line]
   \<and> example1_line \<noteq> message example1_record
   \<and> example1_line \<noteq> user example1_record"
  by (simp add: example1_line_def example1_record_def parseLog_eval)


section \<open>Uploads\<close>

text \<open>
  C5. An upload replaces the stored result wholesale. After \<open>parseLog\<close> the state is the
  same whatever was stored before, and so it is after \<open>handleFileUpload\<close> on a batch that
  holds a file: the new result depends on the new input only, and nothing of the prior
  result is patched into it. A change event that carries no file is no batch and leaves
  the state as it is.
\<close>

theorem upload_replaces_result:
  "parseLog text st = parseLog text st'
   \<and> (files \<noteq> [] \<longrightarrow> handleFileUpload files st = handleFileUpload files st')
   \<and> handleFileUpload [] st = st"
  by (cases files) (simp_all add: handleFileUpload_def parseLog_def setParsedMessages_def)

theorem upload_replaces_result_witness:
  "[\<lparr>name = js ''b.txt'', content = js ''new''\<rparr>] \<noteq> []
   \<and> handleFileUpload [\<lparr>name = js ''b.txt'', content = js ''new''\<rparr>]
        \<lparr>parsedMessages = [js ''old'']\<rparr>
       = \<lparr>parsedMessages = [js ''new'']\<rparr>"
  using upload_replaces_result
    [of "js ''new''" "\<lparr>parsedMessages = [js ''old'']\<rparr>" initial_state
        "[\<lparr>name = js ''b.txt'', content = js ''new''\<rparr>]"]
  by (simp add: parseLog_eval)




section \<open>The filter engine and the chat export of the specification\<close>

text \<open>
  C6. For every record sequence, \<open>evaluate\<close> with an empty FilterSpecification (every facet
  absent or empty) returns exactly the input sequence, element for element and in the
  same order.
\<close>

theorem evaluate_emptySpec_identity:
  "emptySpec spec \<Longrightarrow> evaluate records spec = records"
  by (simp add: evaluate_def matches_emptySpec)

theorem evaluate_emptySpec_identity_witness:
  "emptySpec \<lparr>users = Some {}, dateRange = Some \<lparr>rangeStart = None, rangeEnd = None\<rparr>,
      radius = None, languages = None, messageTypes = Some {}, searchText = Some []\<rparr>
   \<and> evaluate [example1_record, example1_record\<lparr>language := None\<rparr>]
       \<lparr>users = Some {}, dateRange = Some \<lparr>rangeStart = None, rangeEnd = None\<rparr>,
        radius = None, languages = None, messageTypes = Some {}, searchText = Some []\<rparr>
     = [example1_record, example1_record\<lparr>language := None\<rparr>]"
  using evaluate_emptySpec_identity
    [of "\<lparr>users = Some {}, dateRange = Some \<lparr>rangeStart = None, rangeEnd = None\<rparr>,
          radius = None, languages = None, messageTypes = Some {}, searchText = Some []\<rparr>"
        "[example1_record, example1_record\<lparr>language := None\<rparr>]"]
  by (simp add: emptySpec_def)

text \<open>
  C7. When the radius facet is active, the records that \<open>evaluate\<close> returns are exactly
  those passing the other facets that have coordinates, lie at a Euclidean distance
  \<open>sqrt ((lat - centerLat)\<^sup>2 + (lng - centerLng)\<^sup>2)\<close> of at most the radius (the bound
  included) and, when a floor constraint is given, are on exactly that floor. When no
  other facet constrains, a record of the input is included exactly when it meets these
  three conditions. A record without coordinates is never returned.
\<close>

theorem radius_facet_inclusion:
  assumes "radius spec = Some c"
  shows "evaluate records spec =
     filter (\<lambda>r. \<exists>lat lng. latitude r = Some lat \<and> longitude r = Some lng \<and>
        sqrt ((lat - centerLat c)\<^sup>2 + (lng - centerLng c)\<^sup>2) \<le> maxDistance c \<and>
        (floorConstraint c = None \<or> floor_level r = floorConstraint c))
       (evaluate records (spec\<lparr>radius := None\<rparr>))
   \<and> (emptySpec (spec\<lparr>radius := None\<rparr>) \<longrightarrow>
        (\<forall>r. r \<in> set (evaluate records spec) \<longleftrightarrow>
           r \<in> set records \<and>
           (\<exists>lat lng. latitude r = Some lat \<and> longitude r = Some lng \<and>
              sqrt ((lat - centerLat c)\<^sup>2 + (lng - centerLng c)\<^sup>2) \<le> maxDistance c \<and>
              (floorConstraint c = None \<or> floor_level r = floorConstraint c))))"
proof (intro conjI impI)
  show eq: "evaluate records spec =
     filter (\<lambda>r. \<exists>lat lng. latitude r = Some lat \<and> longitude r = Some lng \<and>
        sqrt ((lat - centerLat c)\<^sup>2 + (lng - centerLng c)\<^sup>2) \<le> maxDistance c \<and>
        (floorConstraint c = None \<or> floor_level r = floorConstraint c))
       (evaluate records (spec\<lparr>radius := None\<rparr>))"
    unfolding evaluate_def filter_filter
    by (rule filter_cong [OF refl]) (simp add: matches_radius [OF assms] conj_commute)
  assume "emptySpec (spec\<lparr>radius := None\<rparr>)"
  then have "evaluate records (spec\<lparr>radius := None\<rparr>) = records"
    by (simp add: evaluate_def matches_emptySpec)
  with eq show "\<forall>r. r \<in> set (evaluate records spec) \<longleftrightarrow>
           r \<in> set records \<and>
           (\<exists>lat lng. latitude r = Some lat \<and> longitude r = Some lng \<and>
              sqrt ((lat - centerLat c)\<^sup>2 + (lng - centerLng c)\<^sup>2) \<le> maxDistance c \<and>
              (floorConstraint c = None \<or> floor_level r = floorConstraint c))"
    by auto
qed

text \<open>
  The witness has radius 5 around the origin on floor 0: the record at (3, 4) on floor
  0, at distance exactly 5, is returned; the one on floor 1, the one at distance 6 and the
  one without coordinates are not. With radius 0 the record at the exact centre is
  returned.
\<close>

theorem radius_facet_inclusion_witness:
  "radius \<lparr>users = None, dateRange = None,
       radius = Some \<lparr>centerLat = 0, centerLng = 0, maxDistance = 5, floorConstraint = Some 0\<rparr>,
       languages = None, messageTypes = None, searchText = None\<rparr>
     = Some \<lparr>centerLat = 0, centerLng = 0, maxDistance = 5, floorConstraint = Some 0\<rparr>
   \<and> emptySpec (\<lparr>users = None, dateRange = None,
       radius = Some \<lparr>centerLat = 0, centerLng = 0, maxDistance = 5, floorConstraint = Some 0\<rparr>,
       languages = None, messageTypes = None, searchText = None\<rparr>\<lparr>radius := None\<rparr>)
   \<and> evaluate
        [example1_record\<lparr>latitude := Some 3, longitude := Some 4\<rparr>,
         example1_record\<lparr>latitude := Some 3, longitude := Some 4, floor_level := Some 1\<rparr>,
         example1_record\<lparr>latitude := Some 6, longitude := Some 0\<rparr>,
         example1_record\<lparr>latitude := None, longitude := None, floor_level := None\<rparr>]
        \<lparr>users = None, dateRange = None,
         radius = Some \<lparr>centerLat = 0, centerLng = 0, maxDistance = 5, floorConstraint = Some 0\<rparr>,
         languages = None, messageTypes = None, searchText = None\<rparr>
      = [example1_record\<lparr>latitude := Some 3, longitude := Some 4\<rparr>]
   \<and> evaluate [example1_record]
        \<lparr>users = None, dateRange = None,
         radius = Some \<lparr>centerLat = 5776, centerLng = 11056, maxDistance = 0,
                        floorConstraint = None\<rparr>,
         languages = None, messageTypes = None, searchText = None\<rparr>
      = [example1_record]"
  using radius_facet_inclusion
    [of "\<lparr>users = None, dateRange = None,
          radius = Some \<lparr>centerLat = 0, centerLng = 0, maxDistance = 5, floorConstraint = Some 0\<rparr>,
          languages = None, messageTypes = None, searchText = None\<rparr>"
        "\<lparr>centerLat = 0, centerLng = 0, maxDistance = 5, floorConstraint = Some 0\<rparr>"
        "[example1_record\<lparr>latitude := Some 3, longitude := Some 4\<rparr>,
          example1_record\<lparr>latitude := Some 3, longitude := Some 4, floor_level := Some 1\<rparr>,
          example1_record\<lparr>latitude := Some 6, longitude := Some 0\<rparr>,
          example1_record\<lparr>latitude := None, longitude := None, floor_level := None\<rparr>]"]
    radius_facet_inclusion
    [of "\<lparr>users = None, dateRange = None,
          radius = Some \<lparr>centerLat = 5776, centerLng = 11056, maxDistance = 0,
                         floorConstraint = None\<rparr>,
          languages = None, messageTypes = None, searchText = None\<rparr>"
        "\<lparr>centerLat = 5776, centerLng = 11056, maxDistance = 0, floorConstraint = None\<rparr>"
        "[example1_record]"]
  by (simp add: example1_record_def emptySpec_def filter_eval sqrt_le_iff)

text \<open>
  C8. The chat-markdown serializer embeds the record's timestamp truncated to whole epoch
  seconds in the token \<^verbatim>\<open><t:SECONDS:f>\<close> of the first line: the embedded value is the
  whole number of seconds \<open>s\<close> with \<open>s * 1000 \<le> timestamp < s * 1000 + 1000\<close>. The record
  of Example 1, at 2025-11-10T21:29:30.123Z, is at second 1762810170 of the epoch, and its
  block is exactly the two lines of Example 4.
\<close>

theorem chat_markdown_epoch_seconds:
  "epoch_seconds r * 1000 \<le> timestamp r \<and> timestamp r < epoch_seconds r * 1000 + 1000
   \<and> hd (chat_markdown_block r) =
       js ''> -# '' @ user r @ js '' <t:'' @ show_int (epoch_seconds r) @ js '':f>'' @
       (case coordinate_segment r of None \<Rightarrow> [] | Some seg \<Rightarrow> js '' - '' @ seg)
   \<and> timestamp example1_record = 1762810170123
   \<and> epoch_seconds example1_record = 1762810170
   \<and> chat_markdown_block example1_record =
       [js ''> -# Rota Lyashko <t:1762810170:f> - `5776,11056,0`'',
        js ''> *[en] /say -, no, - no, - I believe you.*'']
   \<and> chat_markdown [example1_record] =
       js ''> -# Rota Lyashko <t:1762810170:f> - `5776,11056,0`'' @ [LF] @
       js ''> *[en] /say -, no, - no, - I believe you.*''"
proof (intro conjI)
  show "epoch_seconds r * 1000 \<le> timestamp r"
    unfolding epoch_seconds_def by presburger
  show "timestamp r < epoch_seconds r * 1000 + 1000"
    unfolding epoch_seconds_def by presburger
  show "hd (chat_markdown_block r) =
       js ''> -# '' @ user r @ js '' <t:'' @ show_int (epoch_seconds r) @ js '':f>'' @
       (case coordinate_segment r of None \<Rightarrow> [] | Some seg \<Rightarrow> js '' - '' @ seg)"
    by (simp add: chat_markdown_block_def timestamp_token_def js_def)
  show "timestamp example1_record = 1762810170123"
    by (simp add: example1_record_def utc_instant_def days_before_month_def
        days_before_year_def is_leap_year_def)
  show "epoch_seconds example1_record = 1762810170"
    by (simp add: epoch_seconds_def example1_record_def utc_instant_def days_before_month_def
        days_before_year_def is_leap_year_def)
  show "chat_markdown_block example1_record =
       [js ''> -# Rota Lyashko <t:1762810170:f> - `5776,11056,0`'',
        js ''> *[en] /say -, no, - no, - I believe you.*'']"
    by (rule example1_block)
  show "chat_markdown [example1_record] =
       js ''> -# Rota Lyashko <t:1762810170:f> - `5776,11056,0`'' @ [LF] @
       js ''> *[en] /say -, no, - no, - I believe you.*''"
    by (simp add: chat_markdown_def example1_block)
qed

end
